theory Spec2Isabelle
  imports Main
begin

text \<open>
  A client for PostgREST servers: one request pipeline, \<open>fetchWithAuth\<close>, behind the
  operations \<open>get\<close>, \<open>getFirst\<close>, \<open>post\<close>, \<open>patch\<close> and \<open>delete\<close>, and an error
  module. The repository holds the client module in two revisions. The theory follows the
  later one, which stores the base unparsed and resolves it at each call, and which skips
  parameters without a value. The earlier revision parses the base in the constructor and
  puts the parameters into the endpoint text before the URL is resolved; its headers, its
  handling of the response and its \<open>getFirst\<close> are the same.
\<close>

section \<open>Values exchanged with the server\<close>

text \<open>
  JSON values as \<^verbatim>\<open>JSON.parse\<close> produces them. Numbers are IEEE doubles in the
  source; the client never computes with them, so their type is a parameter \<open>'n\<close>.
  An object is the list of its entries, its keys pairwise different.
\<close>

datatype 'n json =
    JNull
  | JBoolean bool
  | JNumber 'n
  | JString string
  | JArray "'n json list"
  | JObject "(string \<times> 'n json) list"

section \<open>error.ts: the server error envelope and the client error\<close>

definition POSTGREST_ERROR_TYPE :: string where
  "POSTGREST_ERROR_TYPE = ''POSTGREST_ERROR''"

record PostgrestErrorResponse =
  message :: string
  details :: "string option"
  hint :: "string option"
  code :: string

text \<open>
  \<^verbatim>\<open>v.string()\<close> and \<^verbatim>\<open>v.nullable(v.string())\<close> applied to the value found under a
  key of the parsed body; \<open>None\<close> as input is a missing key (\<^verbatim>\<open>undefined\<close>), which
  neither schema accepts. \<open>None\<close> as output is a validation failure.
\<close>

fun v_string :: "'n json option \<Rightarrow> string option" where
  "v_string (Some (JString s)) = Some s"
| "v_string _ = None"

fun v_nullable_string :: "'n json option \<Rightarrow> string option option" where
  "v_nullable_string (Some JNull) = Some None"
| "v_nullable_string (Some (JString s)) = Some (Some s)"
| "v_nullable_string _ = None"

text \<open>
  \<^verbatim>\<open>v.safeParseAsync(postgrestErrorSchema, errorData)\<close>: \<open>Some output\<close> when
  \<^verbatim>\<open>parsed.success\<close>, \<open>None\<close> otherwise. \<^verbatim>\<open>v.object\<close> keeps the four declared
  keys and drops every other key of the input.
\<close>

definition postgrestErrorSchema :: "'n json \<Rightarrow> PostgrestErrorResponse option" where
  "postgrestErrorSchema errorData =
     (case errorData of
        JObject entries \<Rightarrow>
          (case v_string (map_of entries ''message'') of
             None \<Rightarrow> None
           | Some m \<Rightarrow>
          (case v_nullable_string (map_of entries ''details'') of
             None \<Rightarrow> None
           | Some d \<Rightarrow>
          (case v_nullable_string (map_of entries ''hint'') of
             None \<Rightarrow> None
           | Some h \<Rightarrow>
          (case v_string (map_of entries ''code'') of
             None \<Rightarrow> None
           | Some c \<Rightarrow>
               Some \<lparr>message = m, details = d, hint = h, code = c\<rparr>))))
      | _ \<Rightarrow> None)"

text \<open>
  The class \<^verbatim>\<open>PostgrestClientError extends Error\<close>: \<open>error_message\<close> and
  \<open>error_name\<close> are the inherited \<^verbatim>\<open>message\<close> and \<^verbatim>\<open>name\<close>, the others the fields
  the class declares (\<^verbatim>\<open>type\<close>, \<^verbatim>\<open>status\<close>, \<^verbatim>\<open>details\<close>, \<^verbatim>\<open>hint\<close>, \<^verbatim>\<open>code\<close>).
\<close>

record PostgrestClientError =
  error_message :: string
  error_name :: string
  error_type :: string
  error_status :: nat
  error_details :: "string option"
  error_hint :: "string option"
  error_code :: string

definition PostgrestClientError_constructor ::
    "nat \<Rightarrow> PostgrestErrorResponse \<Rightarrow> PostgrestClientError" where
  "PostgrestClientError_constructor status errorData =
     \<lparr>error_message = message errorData,
      error_name = ''PostgrestClientError'',
      error_type = POSTGREST_ERROR_TYPE,
      error_status = status,
      error_details = details errorData,
      error_hint = hint errorData,
      error_code = code errorData\<rparr>"

text \<open>
  Everything the client can throw: a plain \<^verbatim>\<open>new Error(message)\<close>, the platform's
  \<^verbatim>\<open>TypeError\<close> (a rejected \<^verbatim>\<open>fetch\<close>, a header value that \<^verbatim>\<open>Headers.set\<close>
  refuses) and \<^verbatim>\<open>SyntaxError\<close> (a body that is not JSON), and the client error.
\<close>

datatype error =
    Error string
  | TypeError string
  | SyntaxError string
  | Thrown PostgrestClientError

section \<open>The platform\<close>

text \<open>
  A \<^verbatim>\<open>URL\<close> object: \<open>location\<close> is everything but the query (scheme, host, path,
  fragment), which the client never inspects; \<open>searchParams\<close> is the list of name-value
  pairs behind \<^verbatim>\<open>url.searchParams\<close>, and \<^verbatim>\<open>append\<close> adds a pair at its end. The
  query string is the serialisation of this list, one \<^verbatim>\<open>name=value\<close> per pair.
\<close>

record url =
  location :: string
  searchParams :: "(string \<times> string) list"

definition searchParams_append :: "url \<Rightarrow> string \<Rightarrow> string \<Rightarrow> url" where
  "searchParams_append u name val = u\<lparr>searchParams := searchParams u @ [(name, val)]\<rparr>"

text \<open>
  A \<^verbatim>\<open>Headers\<close> object maps header names, compared without regard to case, to
  values: the map is keyed by the lower-case name. Strings are sequences of 8-bit
  characters, as header names and values are.
\<close>

type_synonym headers = "string \<rightharpoonup> string"

definition lower_char :: "char \<Rightarrow> char" where
  "lower_char c =
     (case map_of (zip ''ABCDEFGHIJKLMNOPQRSTUVWXYZ'' ''abcdefghijklmnopqrstuvwxyz'') c of
        Some l \<Rightarrow> l
      | None \<Rightarrow> c)"

definition lowercase :: "string \<Rightarrow> string" where
  "lowercase s = map lower_char s"


text \<open>
  \<^verbatim>\<open>new Headers(fetchOptions.headers || {})\<close>: the caller's headers are given as the
  \<^verbatim>\<open>Headers\<close> they denote, \<open>None\<close> when the option is left out.
\<close>

definition Headers_new :: "headers option \<Rightarrow> headers" where
  "Headers_new init = (case init of None \<Rightarrow> Map.empty | Some h \<Rightarrow> h)"

text \<open>
  What \<^verbatim>\<open>Headers.set\<close> does to its arguments before it stores them. The value is
  normalised: tabs, line feeds, carriage returns and spaces are removed from both ends.
  The name has to be a token and the normalised value must hold no NUL, line feed or
  carriage return.
\<close>

definition http_whitespace :: "char \<Rightarrow> bool" where
  "http_whitespace c = (c = CHR 0x09 \<or> c = CHR 0x0A \<or> c = CHR 0x0D \<or> c = CHR 0x20)"

definition normalize_value :: "string \<Rightarrow> string" where
  "normalize_value val = rev (dropWhile http_whitespace (rev (dropWhile http_whitespace val)))"

definition legal_value :: "string \<Rightarrow> bool" where
  "legal_value val = (CHR 0x00 \<notin> set val \<and> CHR 0x0A \<notin> set val \<and> CHR 0x0D \<notin> set val)"

definition token_char :: "char \<Rightarrow> bool" where
  "token_char c =
     (c \<in> set (''0123456789abcdefghijklmnopqrstuvwxyzABCDEFGHIJKLMNOPQRSTUVWXYZ'' @
                ''!#$%&*+-.^_|~'' @ [CHR 0x27, CHR 0x60]))"

definition legal_name :: "string \<Rightarrow> bool" where
  "legal_name name = (name \<noteq> [] \<and> list_all token_char name)"

text \<open>
  The request handed to \<^verbatim>\<open>fetch\<close>. \<open>req_init\<close> stands for the remaining
  \<^verbatim>\<open>RequestInit\<close> fields of the caller (\<^verbatim>\<open>signal\<close>, \<^verbatim>\<open>cache\<close>, ...), passed on
  untouched; their type is the parameter \<open>'x\<close>.
\<close>

record 'x request =
  req_url :: url
  req_init :: 'x
  req_method :: string
  req_headers :: headers
  req_body :: "string option"

record response =
  status :: nat
  body :: string

text \<open>\<^verbatim>\<open>response.ok\<close>: the status is in the range 200 to 299.\<close>

definition ok :: "response \<Rightarrow> bool" where
  "ok r = (200 \<le> status r \<and> status r \<le> 299)"

text \<open>
  What the client calls and does not define:
  \<^item> \<open>URL_new input base\<close> is \<^verbatim>\<open>new URL(input, base)\<close>, \<open>Inl msg\<close> when it throws a
    \<^verbatim>\<open>TypeError\<close> with message \<open>msg\<close>;
  \<^item> \<open>URL_href\<close> is the string of a \<^verbatim>\<open>URL\<close> object;
  \<^item> \<open>Number_toString\<close> is \<^verbatim>\<open>String(n)\<close> for a number;
  \<^item> \<open>JSON_stringify\<close> is \<^verbatim>\<open>JSON.stringify(data)\<close> and \<open>JSON_stringify_indent\<close> is
    \<^verbatim>\<open>JSON.stringify(issues, null, 2)\<close>;
  \<^item> \<open>Headers_set_error name val\<close> is the message of the \<^verbatim>\<open>TypeError\<close> that
    \<^verbatim>\<open>headers.set(name, val)\<close> throws when it refuses its arguments;
  \<^item> \<open>fetch\<close> is the transport, \<open>Inl msg\<close> when the promise rejects;
  \<^item> \<open>Response_json\<close> is \<^verbatim>\<open>response.json()\<close> on a body, \<open>Inl msg\<close> when the body is
    not JSON.
\<close>

record ('n, 'x) platform =
  URL_new :: "string \<Rightarrow> url option \<Rightarrow> string + url"
  URL_href :: "url \<Rightarrow> string"
  Number_toString :: "'n \<Rightarrow> string"
  JSON_stringify :: "'n json \<Rightarrow> string"
  JSON_stringify_indent :: "'n json \<Rightarrow> string"
  Headers_set_error :: "string \<Rightarrow> string \<Rightarrow> string"
  fetch :: "'x request \<Rightarrow> string + response"
  Response_json :: "string \<Rightarrow> string + 'n json"

text \<open>
  \<^verbatim>\<open>headers.set(name, val)\<close>: the normalised value replaces what the name had, or the
  call throws.
\<close>

definition Headers_set ::
    "('n, 'x) platform \<Rightarrow> headers \<Rightarrow> string \<Rightarrow> string \<Rightarrow> error + headers" where
  "Headers_set P h name val =
     (if legal_name name \<and> legal_value (normalize_value val)
      then Inr (h(lowercase name \<mapsto> normalize_value val))
      else Inl (TypeError (Headers_set_error P name val)))"

text \<open>
  What a call does besides returning: the requests it sends, the bodies it parses, the
  lines it logs and the schemas it runs, in order.
\<close>

datatype 'x effect =
    Fetch "'x request"
  | ResponseJson
  | ConsoleError
  | SchemaValidate

type_synonym ('a, 'x) run = "(error + 'a) \<times> 'x effect list"

fun requests_of :: "'x effect list \<Rightarrow> 'x request list" where
  "requests_of [] = []"
| "requests_of (Fetch r # es) = r # requests_of es"
| "requests_of (_ # es) = requests_of es"

text \<open>The decimal digits of a number, as a template literal prints a status.\<close>

function decimal :: "nat \<Rightarrow> string" where
  "decimal n =
     (if n < 10 then [''0123456789'' ! n]
      else decimal (n div 10) @ [''0123456789'' ! (n mod 10)])"
  by pat_completeness auto
termination
  by (relation "measure (\<lambda>n. n)") auto

declare decimal.simps [simp del]

section \<open>The client module: request options and the client\<close>

datatype 'n ParamValue =
    PString string
  | PNumber 'n
  | PBoolean bool
  | PUndefined
  | PNull

text \<open>\<^verbatim>\<open>String(value)\<close> on a parameter value that is neither undefined nor null.\<close>

fun String_of :: "('n, 'x) platform \<Rightarrow> 'n ParamValue \<Rightarrow> string" where
  "String_of P (PString s) = s"
| "String_of P (PNumber n) = Number_toString P n"
| "String_of P (PBoolean b) = (if b then ''true'' else ''false'')"
| "String_of P PUndefined = ''undefined''"
| "String_of P PNull = ''null''"

text \<open>\<^verbatim>\<open>value !== undefined && value !== null\<close>\<close>

fun present :: "'n ParamValue \<Rightarrow> bool" where
  "present PUndefined = False"
| "present PNull = False"
| "present _ = True"

text \<open>
  A Standard Schema: an object without the \<^verbatim>\<open>~standard\<close> property, or one whose
  \<^verbatim>\<open>validate\<close> answers with a value or with a list of issues.
\<close>

datatype 'n StandardResult =
    SuccessResult "'n json"
  | FailureResult "'n json list"

datatype 'n schema =
    NotStandard
  | StandardSchema "'n json \<Rightarrow> 'n StandardResult"

text \<open>
  The options object of a call. \<open>token\<close> has three states: \<open>None\<close> is a field left
  undefined, \<open>Some None\<close> is \<^verbatim>\<open>token: null\<close>, \<open>Some (Some t)\<close> a string. \<open>params\<close> lists
  the entries of the record in the order of \<^verbatim>\<open>Object.entries\<close>.
\<close>

record ('n, 'x) options =
  endpoint :: string
  token :: "string option option"
  schema :: "'n schema option"
  params :: "(string \<times> 'n ParamValue) list option"
  data :: "'n json option"
  headers :: "headers option"
  init :: 'x

text \<open>\<^verbatim>\<open>baseURL: string | URL\<close>\<close>

datatype base = BaseString string | BaseURL url

record client =
  baseURL :: base
  defaultToken :: "string option"

definition PostgrestClient :: "base \<Rightarrow> string option \<Rightarrow> client" where
  "PostgrestClient baseURL' defaultToken' =
     \<lparr>baseURL = baseURL', defaultToken = defaultToken'\<rparr>"

text \<open>\<^verbatim>\<open>new PostgrestClient(baseURL || "", defaultToken)\<close>, \<open>None\<close> an undefined base.\<close>

definition createPostgrestClient :: "base option \<Rightarrow> string option \<Rightarrow> client" where
  "createPostgrestClient baseURL' defaultToken' =
     PostgrestClient
       (case baseURL' of
          None \<Rightarrow> BaseString ''''
        | Some (BaseString s) \<Rightarrow> (if s = '''' then BaseString '''' else BaseString s)
        | Some (BaseURL u) \<Rightarrow> BaseURL u)
       defaultToken'"


definition validateData ::
    "('n, 'x) platform \<Rightarrow> 'n schema \<Rightarrow> 'n json \<Rightarrow> ('n json, 'x) run" where
  "validateData P schema' data' =
     (case schema' of
        NotStandard \<Rightarrow> (Inl (Error ''Provided schema is not a valid Standard Schema''), [])
      | StandardSchema validate \<Rightarrow>
          (case validate data' of
             FailureResult issues \<Rightarrow>
               (Inl (Error (''Schema Validation Error: '' @
                  JSON_stringify_indent P (JArray issues))), [SchemaValidate])
           | SuccessResult val \<Rightarrow> (Inr val, [SchemaValidate])))"

subsection \<open>fetchWithAuth, step by step\<close>

text \<open>\<^verbatim>\<open>!this.baseURL\<close> holds of the empty string only: a \<^verbatim>\<open>URL\<close> object is truthy.\<close>

fun falsy_base :: "base \<Rightarrow> bool" where
  "falsy_base (BaseString s) = (s = '''')"
| "falsy_base (BaseURL u) = False"

text \<open>The base as a template literal and \<^verbatim>\<open>new URL(this.baseURL)\<close> read it.\<close>

fun String_base :: "('n, 'x) platform \<Rightarrow> base \<Rightarrow> string" where
  "String_base P (BaseString s) = s"
| "String_base P (BaseURL u) = URL_href P u"

text \<open>\<^verbatim>\<open>endpoint.replace(/^\//, "")\<close>\<close>

fun cleanEndpoint :: "string \<Rightarrow> string" where
  "cleanEndpoint [] = []"
| "cleanEndpoint (c # cs) = (if c = CHR ''/'' then cs else c # cs)"

text \<open>
  The \<^verbatim>\<open>try\<close> block that builds the URL and its \<^verbatim>\<open>catch\<close>, which rethrows every
  failure as an \<^verbatim>\<open>Error\<close> naming the base and the endpoint.
\<close>

definition construct_url :: "('n, 'x) platform \<Rightarrow> client \<Rightarrow> string \<Rightarrow> error + url" where
  "construct_url P c endpoint' =
     (case (if falsy_base (baseURL c) then Inl ''Base URL is not defined''
            else (case URL_new P (String_base P (baseURL c)) None of
                    Inl msg \<Rightarrow> Inl msg
                  | Inr base' \<Rightarrow> URL_new P (cleanEndpoint endpoint') (Some base'))) of
        Inl msg \<Rightarrow>
          Inl (Error (''Failed to construct URL (base: '' @ String_base P (baseURL c) @
                 '', endpoint: '' @ endpoint' @ ''): '' @ msg))
      | Inr u \<Rightarrow> Inr u)"

text \<open>Step 1, the \<^verbatim>\<open>forEach\<close> over \<^verbatim>\<open>Object.entries(params)\<close>.\<close>

fun append_params ::
    "('n, 'x) platform \<Rightarrow> url \<Rightarrow> (string \<times> 'n ParamValue) list \<Rightarrow> url" where
  "append_params P u [] = u"
| "append_params P u ((key, val) # entries) =
     append_params P
       (if present val then searchParams_append u key (String_of P val) else u) entries"

definition query_params ::
    "('n, 'x) platform \<Rightarrow> url \<Rightarrow> (string \<times> 'n ParamValue) list option \<Rightarrow> url" where
  "query_params P u params' =
     (case params' of None \<Rightarrow> u | Some entries \<Rightarrow> append_params P u entries)"

text \<open>Step 2: \<^verbatim>\<open>token !== undefined ? token : this.defaultToken\<close>, then the headers.\<close>

definition effectiveToken :: "client \<Rightarrow> string option option \<Rightarrow> string option" where
  "effectiveToken c token' = (case token' of Some t \<Rightarrow> t | None \<Rightarrow> defaultToken c)"

definition request_headers ::
    "('n, 'x) platform \<Rightarrow> client \<Rightarrow> ('n, 'x) options \<Rightarrow> error + headers" where
  "request_headers P c opts =
     (case (case effectiveToken c (token opts) of
              None \<Rightarrow> Inr (Headers_new (headers opts))
            | Some t \<Rightarrow>
                if t = '''' then Inr (Headers_new (headers opts))
                else Headers_set P (Headers_new (headers opts)) ''Authorization''
                       (''Bearer '' @ t)) of
        Inl e \<Rightarrow> Inl e
      | Inr h \<Rightarrow>
          (case Headers_set P h ''Content-Type'' ''application/json'' of
             Inl e \<Rightarrow> Inl e
           | Inr h' \<Rightarrow> Headers_set P h' ''Accept'' ''application/json''))"

text \<open>
  Steps 1 to 3 together: the argument of \<^verbatim>\<open>fetch\<close>, or the error of a refused
  header, thrown before anything is sent.
\<close>

definition build_request ::
    "('n, 'x) platform \<Rightarrow> client \<Rightarrow> string \<Rightarrow> ('n, 'x) options \<Rightarrow> url \<Rightarrow>
     error + 'x request" where
  "build_request P c method opts u =
     (case request_headers P c opts of
        Inl e \<Rightarrow> Inl e
      | Inr h \<Rightarrow>
          Inr \<lparr>req_url = query_params P u (params opts),
               req_init = init opts,
               req_method = method,
               req_headers = h,
               req_body =
                 (case data opts of None \<Rightarrow> None | Some d \<Rightarrow> Some (JSON_stringify P d))\<rparr>)"

text \<open>Steps 4 and 5: what becomes of the response.\<close>

definition classify_response ::
    "('n, 'x) platform \<Rightarrow> 'n schema option \<Rightarrow> response \<Rightarrow> ('n json, 'x) run" where
  "classify_response P schema' res =
     (if \<not> ok res then
        (case Response_json P (body res) of
           Inl _ \<Rightarrow>
             (Inl (Error (''HTTP Error '' @ decimal (status res) @
                '': Failed to parse JSON error response'')), [ResponseJson])
         | Inr errorData \<Rightarrow>
             (case postgrestErrorSchema errorData of
                None \<Rightarrow>
                  (Inl (Error (''Internal Client Error: Invalid error format from server ('' @
                     decimal (status res) @ '')'')), [ResponseJson, ConsoleError])
              | Some output \<Rightarrow>
                  (Inl (Thrown (PostgrestClientError_constructor (status res) output)),
                   [ResponseJson])))
      else if status res = 204 \<or> status res = 202 then (Inr JNull, [])
      else
        (case Response_json P (body res) of
           Inl msg \<Rightarrow> (Inl (SyntaxError msg), [ResponseJson])
         | Inr resData \<Rightarrow>
             (case schema' of
                Some s \<Rightarrow>
                  (case validateData P s resData of (r, es) \<Rightarrow> (r, ResponseJson # es))
              | None \<Rightarrow> (Inr resData, [ResponseJson]))))"

definition fetchWithAuth ::
    "('n, 'x) platform \<Rightarrow> client \<Rightarrow> string \<Rightarrow> ('n, 'x) options \<Rightarrow> ('n json, 'x) run" where
  "fetchWithAuth P c method opts =
     (case construct_url P c (endpoint opts) of
        Inl e \<Rightarrow> (Inl e, [])
      | Inr u \<Rightarrow>
          (case build_request P c method opts u of
             Inl e \<Rightarrow> (Inl e, [])
           | Inr req \<Rightarrow>
               (case fetch P req of
                  Inl msg \<Rightarrow> (Inl (TypeError msg), [Fetch req])
                | Inr res \<Rightarrow>
                    (case classify_response P (schema opts) res of
                       (r, es) \<Rightarrow> (r, Fetch req # es)))))"

subsection \<open>The public operations\<close>

definition get :: "('n, 'x) platform \<Rightarrow> client \<Rightarrow> ('n, 'x) options \<Rightarrow> ('n json, 'x) run" where
  "get P c opts = fetchWithAuth P c ''GET'' opts"

definition post :: "('n, 'x) platform \<Rightarrow> client \<Rightarrow> ('n, 'x) options \<Rightarrow> ('n json, 'x) run" where
  "post P c opts = fetchWithAuth P c ''POST'' opts"

definition patch :: "('n, 'x) platform \<Rightarrow> client \<Rightarrow> ('n, 'x) options \<Rightarrow> ('n json, 'x) run" where
  "patch P c opts = fetchWithAuth P c ''PATCH'' opts"

definition delete' :: "('n, 'x) platform \<Rightarrow> client \<Rightarrow> ('n, 'x) options \<Rightarrow> ('n json, 'x) run" where
  "delete' P c opts = fetchWithAuth P c ''DELETE'' opts"

text \<open>
  \<^verbatim>\<open>{ ...baseParams, limit: "1" }\<close>: an own key keeps its place and takes the new
  value, a new key goes to the end.
\<close>

fun spread_with :: "(string \<times> 'v) list \<Rightarrow> string \<Rightarrow> 'v \<Rightarrow> (string \<times> 'v) list" where
  "spread_with [] key val = [(key, val)]"
| "spread_with ((k, v) # entries) key val =
     (if k = key then (key, val) # entries else (k, v) # spread_with entries key val)"

definition allParams :: "('n, 'x) options \<Rightarrow> (string \<times> 'n ParamValue) list" where
  "allParams opts =
     spread_with (case params opts of None \<Rightarrow> [] | Some p \<Rightarrow> p) ''limit'' (PString ''1'')"

definition getFirst ::
    "('n, 'x) platform \<Rightarrow> client \<Rightarrow> ('n, 'x) options \<Rightarrow> ('n json, 'x) run" where
  "getFirst P c opts =
     (case fetchWithAuth P c ''GET'' (opts\<lparr>params := Some (allParams opts), schema := None\<rparr>) of
        (Inl e, es) \<Rightarrow> (Inl e, es)
      | (Inr data', es) \<Rightarrow>
          (case data' of
             JArray (firstItem # _) \<Rightarrow>
               (case schema opts of
                  Some s \<Rightarrow> (case validateData P s firstItem of (r, es') \<Rightarrow> (r, es @ es'))
                | None \<Rightarrow> (Inr firstItem, es))
           | _ \<Rightarrow> (Inl (Error ''No data found''), es)))"

section \<open>Observing a call\<close>

text \<open>The requests a call has sent, their query lists and their headers.\<close>

definition sent :: "('a, 'x) run \<Rightarrow> 'x request list" where
  "sent r = requests_of (snd r)"

definition sent_queries :: "('a, 'x) run \<Rightarrow> (string \<times> string) list list" where
  "sent_queries r = map (\<lambda>q. searchParams (req_url q)) (sent r)"


text \<open>How often a name occurs in a query list.\<close>

definition occurrences :: "string \<Rightarrow> (string \<times> string) list \<Rightarrow> nat" where
  "occurrences name q = length (filter (\<lambda>p. fst p = name) q)"

text \<open>The pairs step 1 appends for a parameter record.\<close>

definition appended :: "('n, 'x) platform \<Rightarrow> (string \<times> 'n ParamValue) list \<Rightarrow> (string \<times> string) list" where
  "appended P entries =
     map (\<lambda>p. (fst p, String_of P (snd p))) (filter (\<lambda>p. present (snd p)) entries)"

text \<open>A nullable string as the JSON value that carries it.\<close>

definition nullable :: "string option \<Rightarrow> 'n json" where
  "nullable s = (case s of None \<Rightarrow> JNull | Some t \<Rightarrow> JString t)"

section \<open>A sample platform\<close>

text \<open>
  A small platform on which calls can be evaluated. Its URL constructor rejects the empty
  string, joins a relative reference to its base with a slash and reads the text after
  the first question mark as the query, pairs separated by \<^verbatim>\<open>&\<close> and name from value
  by \<^verbatim>\<open>=\<close>. Its server answers every request with the response \<open>res\<close>, and
  \<open>bodies\<close> lists the bodies that are JSON, each with its value. It prints a list of
  issues that holds one string as \<^verbatim>\<open>JSON.stringify(issues, null, 2)\<close> does.
\<close>

definition quoted :: "string \<Rightarrow> string" where
  "quoted s = CHR 0x22 # s @ [CHR 0x22]"

fun split_on :: "char \<Rightarrow> string \<Rightarrow> string list" where
  "split_on d [] = [[]]"
| "split_on d (c # cs) =
     (if c = d then [] # split_on d cs
      else (case split_on d cs of [] \<Rightarrow> [[c]] | w # ws \<Rightarrow> (c # w) # ws))"

definition before :: "char \<Rightarrow> string \<Rightarrow> string" where
  "before d s = takeWhile (\<lambda>c. c \<noteq> d) s"

definition after :: "char \<Rightarrow> string \<Rightarrow> string" where
  "after d s = drop 1 (dropWhile (\<lambda>c. c \<noteq> d) s)"

definition parse_query :: "string \<Rightarrow> (string \<times> string) list" where
  "parse_query q =
     (if q = [] then []
      else map (\<lambda>kv. (before CHR ''='' kv, after CHR ''='' kv)) (split_on CHR ''&'' q))"

definition sample_URL_new :: "string \<Rightarrow> url option \<Rightarrow> string + url" where
  "sample_URL_new input base' =
     (case base' of
        None \<Rightarrow>
          (if input = [] then Inl ''Invalid URL''
           else Inr \<lparr>location = before CHR ''?'' input,
                     searchParams = parse_query (after CHR ''?'' input)\<rparr>)
      | Some b \<Rightarrow>
          Inr \<lparr>location = location b @ ''/'' @ before CHR ''?'' input,
               searchParams = parse_query (after CHR ''?'' input)\<rparr>)"

definition sample_platform ::
    "response \<Rightarrow> (string \<times> int json) list \<Rightarrow> (int, unit) platform" where
  "sample_platform res bodies =
     \<lparr>URL_new = sample_URL_new,
      URL_href = location,
      Number_toString = (\<lambda>n. if n < 0 then ''-'' @ decimal (nat (- n)) else decimal (nat n)),
      JSON_stringify = (\<lambda>j. ''{}''),
      JSON_stringify_indent =
        (\<lambda>j. case j of
               JArray [JString s] \<Rightarrow> ''['' @ [CHR 0x0A] @ ''  '' @ quoted s @ [CHR 0x0A] @ '']''
             | _ \<Rightarrow> ''[]''),
      Headers_set_error = (\<lambda>name val. ''Invalid header value''),
      fetch = (\<lambda>req. Inr res),
      Response_json =
        (\<lambda>b. case map_of bodies b of None \<Rightarrow> Inl ''Unexpected token'' | Some j \<Rightarrow> Inr j)\<rparr>"

definition sample_client :: "string option \<Rightarrow> client" where
  "sample_client defaultToken' =
     PostgrestClient (BaseString ''https://api.example.com'') defaultToken'"

definition sample_options :: "string \<Rightarrow> (int, unit) options" where
  "sample_options endpoint' =
     \<lparr>endpoint = endpoint', token = None, schema = None, params = None, data = None,
      headers = None, init = ()\<rparr>"

text \<open>Sample responses and the values their bodies parse to.\<close>

definition no_content :: response where
  "no_content = \<lparr>status = 204, body = ''not json at all''\<rparr>"

definition bad_gateway :: response where
  "bad_gateway = \<lparr>status = 502, body = ''<html>Bad Gateway</html>''\<rparr>"

definition foreign_error :: response where
  "foreign_error = \<lparr>status = 500, body = ''{'' @ quoted ''error'' @ '':'' @ quoted ''boom'' @ ''}''\<rparr>"

definition foreign_error_json :: "int json" where
  "foreign_error_json = JObject [(''error'', JString ''boom'')]"

definition missing_table :: response where
  "missing_table =
     \<lparr>status = 404,
      body = ''{'' @ quoted ''code'' @ '':'' @ quoted ''42P01'' @ '','' @
             quoted ''details'' @ '':null,'' @ quoted ''hint'' @ '':null,'' @
             quoted ''message'' @ '':'' @ quoted ''relation does not exist'' @ ''}''\<rparr>"

definition missing_table_json :: "int json" where
  "missing_table_json =
     JObject [(''code'', JString ''42P01''), (''details'', JNull), (''hint'', JNull),
              (''message'', JString ''relation does not exist'')]"

definition no_rows :: response where
  "no_rows = \<lparr>status = 200, body = ''[]''\<rparr>"

definition one_row :: response where
  "one_row = \<lparr>status = 200, body = ''[{'' @ quoted ''id'' @ '':1}]''\<rparr>"

definition one_row_json :: "int json" where
  "one_row_json = JArray [JObject [(''id'', JNumber 1)]]"

text \<open>A schema that accepts JSON objects and nothing else.\<close>

definition object_schema :: "int schema" where
  "object_schema =
     StandardSchema (\<lambda>j. case j of JObject entries \<Rightarrow> SuccessResult (JObject entries)
                          | _ \<Rightarrow> FailureResult [JString ''Invalid type: Expected Object''])"


text \<open>The headers and the request of a sample call that brings no credential.\<close>

definition json_headers :: headers where
  "json_headers = [''content-type'' \<mapsto> ''application/json'', ''accept'' \<mapsto> ''application/json'']"

definition sample_request :: "string \<Rightarrow> unit request" where
  "sample_request verb =
     \<lparr>req_url = \<lparr>location = ''https://api.example.com/users'', searchParams = []\<rparr>,
      req_init = (), req_method = verb, req_headers = json_headers, req_body = None\<rparr>"

text \<open>Responses with one row that is not an object, and a schema without the interface.\<close>

definition number_row :: response where
  "number_row = \<lparr>status = 200, body = ''[7]''\<rparr>"

definition number_row_json :: "int json" where
  "number_row_json = JArray [JNumber 7]"



section \<open>The shape of a run of the pipeline\<close>

lemma searchParams_append_params:
  "searchParams (append_params P u entries) = searchParams u @ appended P entries"
  by (induction entries arbitrary: u) (auto simp: appended_def searchParams_append_def)

lemma fetchWithAuth_no_url:
  "construct_url P c (endpoint opts) = Inl e \<Longrightarrow> fetchWithAuth P c verb opts = (Inl e, [])"
  by (simp add: fetchWithAuth_def)


lemma fetchWithAuth_rejected:
  "construct_url P c (endpoint opts) = Inr u \<Longrightarrow>
   build_request P c verb opts u = Inr req \<Longrightarrow>
   fetch P req = Inl msg \<Longrightarrow>
   fetchWithAuth P c verb opts = (Inl (TypeError msg), [Fetch req])"
  by (simp add: fetchWithAuth_def)

lemma fetchWithAuth_answered:
  "construct_url P c (endpoint opts) = Inr u \<Longrightarrow>
   build_request P c verb opts u = Inr req \<Longrightarrow>
   fetch P req = Inr res \<Longrightarrow>
   fetchWithAuth P c verb opts =
     (fst (classify_response P (schema opts) res),
      Fetch req # snd (classify_response P (schema opts) res))"
  by (simp add: fetchWithAuth_def split: prod.splits)

lemma requests_of_classify: "requests_of (snd (classify_response P s res)) = []"
  by (auto simp: classify_response_def validateData_def
      split: sum.splits option.splits prod.splits schema.splits StandardResult.splits)

text \<open>Once the URL and the request are built, a call sends exactly this request.\<close>

lemma sent_fetchWithAuth:
  assumes "construct_url P c (endpoint opts) = Inr u"
    and "build_request P c verb opts u = Inr req"
  shows "sent (fetchWithAuth P c verb opts) = [req]"
proof (cases "fetch P req")
  case (Inl msg)
  with assms show ?thesis by (simp add: fetchWithAuth_rejected sent_def)
next
  case (Inr res)
  with assms show ?thesis by (simp add: fetchWithAuth_answered sent_def requests_of_classify)
qed

lemma build_request_Inr:
  assumes "build_request P c verb opts u = Inr req"
  shows "req_url req = query_params P u (params opts)"
    and "request_headers P c opts = Inr (req_headers req)"
  using assms by (auto simp: build_request_def split: sum.splits)


lemma set_appended:
  "set (appended P entries) = (\<lambda>p. (fst p, String_of P (snd p))) ` {p \<in> set entries. present (snd p)}"
  by (auto simp: appended_def)

lemma construct_url_empty:
  "construct_url P (PostgrestClient (BaseString '''') t) e =
     Inl (Error (''Failed to construct URL (base: , endpoint: '' @ e @
       ''): Base URL is not defined''))"
  by (simp add: construct_url_def PostgrestClient_def)

lemma envelope_matches:
  assumes "map_of entries ''message'' = Some (JString m)"
    and "map_of entries ''details'' = Some (nullable d)"
    and "map_of entries ''hint'' = Some (nullable h)"
    and "map_of entries ''code'' = Some (JString cd)"
  shows "postgrestErrorSchema (JObject entries) =
           Some \<lparr>message = m, details = d, hint = h, code = cd\<rparr>"
  using assms by (cases d; cases h) (simp_all add: postgrestErrorSchema_def nullable_def)

section \<open>The headers of a request\<close>

lemma lowercase_names:
  "lowercase ''Authorization'' = ''authorization''"
  "lowercase ''Content-Type'' = ''content-type''"
  "lowercase ''Accept'' = ''accept''"
  by (simp_all add: lowercase_def lower_char_def)

lemma legal_names:
  "legal_name ''Authorization''" "legal_name ''Content-Type''" "legal_name ''Accept''"
  by (simp_all add: legal_name_def token_char_def)

lemma json_value:
  "normalize_value ''application/json'' = ''application/json''"
  "legal_value ''application/json''"
  by (simp_all add: normalize_value_def legal_value_def http_whitespace_def)

lemma Headers_set_fixed:
  "Headers_set P h ''Content-Type'' ''application/json'' =
     Inr (h(''content-type'' \<mapsto> ''application/json''))"
  "Headers_set P h ''Accept'' ''application/json'' = Inr (h(''accept'' \<mapsto> ''application/json''))"
  unfolding Headers_set_def lowercase_names by (simp_all add: legal_names json_value)

lemma Headers_set_Authorization:
  "Headers_set P h ''Authorization'' val =
     (if legal_value (normalize_value val)
      then Inr (h(''authorization'' \<mapsto> normalize_value val))
      else Inl (TypeError (Headers_set_error P ''Authorization'' val)))"
  unfolding Headers_set_def lowercase_names by (simp add: legal_names)

text \<open>The headers of a request, case by case of the effective credential.\<close>

lemma request_headers_cases:
  "request_headers P c opts =
     (case effectiveToken c (token opts) of
        None \<Rightarrow>
          Inr ((Headers_new (headers opts))
                 (''content-type'' \<mapsto> ''application/json'', ''accept'' \<mapsto> ''application/json''))
      | Some t \<Rightarrow>
          if t = '''' then
            Inr ((Headers_new (headers opts))
                   (''content-type'' \<mapsto> ''application/json'', ''accept'' \<mapsto> ''application/json''))
          else if legal_value (normalize_value (''Bearer '' @ t)) then
            Inr ((Headers_new (headers opts))
                   (''authorization'' \<mapsto> normalize_value (''Bearer '' @ t),
                    ''content-type'' \<mapsto> ''application/json'',
                    ''accept'' \<mapsto> ''application/json''))
          else Inl (TypeError (Headers_set_error P ''Authorization'' (''Bearer '' @ t))))"
  unfolding request_headers_def Headers_set_fixed Headers_set_Authorization
  by (simp split: option.splits)





section \<open>Construction and the deferred base check\<close>

text \<open>
  C1. Constructing a client cannot fail: the constructor is a total function that stores
  its two arguments as they are, and the factory turns an absent or empty base into the
  empty string. On a client whose base is the empty string every operation fails before
  any request is sent, with an \<^verbatim>\<open>Error\<close> whose message names the base, the endpoint
  and the cause, \<^verbatim>\<open>Base URL is not defined\<close>.
\<close>

theorem client_construction_defers_base_check:
  "baseURL (PostgrestClient b t) = b \<and> defaultToken (PostgrestClient b t) = t \<and>
   createPostgrestClient None t = PostgrestClient (BaseString '''') t \<and>
   createPostgrestClient (Some (BaseString '''')) t = PostgrestClient (BaseString '''') t \<and>
   get P (PostgrestClient (BaseString '''') t) opts =
     (Inl (Error (''Failed to construct URL (base: , endpoint: '' @ endpoint opts @
        ''): Base URL is not defined'')), []) \<and>
   getFirst P (PostgrestClient (BaseString '''') t) opts =
     (Inl (Error (''Failed to construct URL (base: , endpoint: '' @ endpoint opts @
        ''): Base URL is not defined'')), []) \<and>
   post P (PostgrestClient (BaseString '''') t) opts =
     (Inl (Error (''Failed to construct URL (base: , endpoint: '' @ endpoint opts @
        ''): Base URL is not defined'')), []) \<and>
   patch P (PostgrestClient (BaseString '''') t) opts =
     (Inl (Error (''Failed to construct URL (base: , endpoint: '' @ endpoint opts @
        ''): Base URL is not defined'')), []) \<and>
   delete' P (PostgrestClient (BaseString '''') t) opts =
     (Inl (Error (''Failed to construct URL (base: , endpoint: '' @ endpoint opts @
        ''): Base URL is not defined'')), [])"
proof -
  let ?c = "PostgrestClient (BaseString '''') t"
  let ?e = "Error (''Failed to construct URL (base: , endpoint: '' @ endpoint opts @
        ''): Base URL is not defined'')"
  have pipeline: "fetchWithAuth P ?c verb opts = (Inl ?e, [])" for verb
    by (rule fetchWithAuth_no_url) (rule construct_url_empty)
  have "construct_url P ?c (endpoint (opts\<lparr>params := Some (allParams opts), schema := None\<rparr>))
          = Inl ?e"
    using construct_url_empty [of P t "endpoint opts"] by simp
  then have "fetchWithAuth P ?c ''GET'' (opts\<lparr>params := Some (allParams opts), schema := None\<rparr>)
          = (Inl ?e, [])"
    by (rule fetchWithAuth_no_url)
  then have first: "getFirst P ?c opts = (Inl ?e, [])"
    unfolding getFirst_def by simp
  have made: "baseURL (PostgrestClient b t) = b \<and> defaultToken (PostgrestClient b t) = t"
    by (simp add: PostgrestClient_def)
  have factory: "createPostgrestClient None t = ?c \<and>
      createPostgrestClient (Some (BaseString '''')) t = ?c"
    by (simp add: createPostgrestClient_def)
  from made factory first pipeline show ?thesis
    unfolding get_def post_def patch_def delete'_def by blast
qed

section \<open>The sample platform at work\<close>

lemma sample_construct_url:
  "construct_url (sample_platform res bodies) (sample_client t) ''/users'' =
     Inr \<lparr>location = ''https://api.example.com/users'', searchParams = []\<rparr>"
  by (simp add: construct_url_def sample_platform_def sample_client_def PostgrestClient_def
      sample_URL_new_def before_def after_def parse_query_def)

lemma sample_fetch: "fetch (sample_platform res bodies) req = Inr res"
  by (simp add: sample_platform_def)

lemma sample_Response_json:
  "Response_json (sample_platform res bodies) b =
     (case map_of bodies b of None \<Rightarrow> Inl ''Unexpected token'' | Some j \<Rightarrow> Inr j)"
  by (simp add: sample_platform_def)

lemma sample_request_headers:
  "token opts = None \<Longrightarrow> headers opts = None \<Longrightarrow>
   request_headers P (sample_client None) opts = Inr json_headers"
  unfolding request_headers_cases
  by (simp add: effectiveToken_def sample_client_def PostgrestClient_def Headers_new_def
      json_headers_def)

lemma sample_build_request:
  "build_request (sample_platform res bodies) (sample_client None) verb
     ((sample_options ''/users'')\<lparr>schema := s\<rparr>)
     \<lparr>location = ''https://api.example.com/users'', searchParams = []\<rparr> = Inr (sample_request verb)"
  by (simp add: build_request_def sample_request_headers sample_options_def query_params_def
      sample_request_def)

lemma sample_resolves:
  assumes "200 \<le> status res" and "status res \<le> 299"
    and "status res \<noteq> 204" and "status res \<noteq> 202"
    and "map_of bodies (body res) = Some j"
  shows "fst (fetchWithAuth (sample_platform res bodies) (sample_client None) ''GET''
     ((sample_options ''/users'')\<lparr>params := p, schema := None\<rparr>)) = Inr j"
proof -
  let ?P = "sample_platform res bodies"
  let ?o = "(sample_options ''/users'')\<lparr>params := p, schema := None\<rparr>"
  let ?u = "\<lparr>location = ''https://api.example.com/users'', searchParams = []\<rparr>"
  have url: "construct_url ?P (sample_client None) (endpoint ?o) = Inr ?u"
    by (simp add: sample_construct_url sample_options_def)
  obtain req where req: "build_request ?P (sample_client None) ''GET'' ?o ?u = Inr req"
    by (simp add: build_request_def sample_request_headers sample_options_def)
  from assms show ?thesis
    unfolding fetchWithAuth_answered [OF url req sample_fetch]
    by (simp add: classify_response_def ok_def sample_Response_json sample_options_def)
qed

lemma sample_builds:
  "token opts = None \<Longrightarrow> headers opts = None \<Longrightarrow>
   \<exists>req. build_request P (sample_client None) verb opts u = Inr req"
  by (simp add: build_request_def sample_request_headers)

section \<open>Query composition\<close>

lemma filter_key:
  "distinct (map fst entries) \<Longrightarrow> (k, v) \<in> set entries \<Longrightarrow>
   filter (\<lambda>p. fst p = k) entries = [(k, v)]"
proof (induction entries)
  case Nil
  then show ?case by simp
next
  case (Cons p entries)
  show ?case
  proof (cases "p = (k, v)")
    case True
    with Cons.prems(1) have "\<forall>q \<in> set entries. fst q \<noteq> k"
      by auto
    then have "filter (\<lambda>p. fst p = k) entries = []"
      by (simp add: filter_empty_conv)
    with True show ?thesis by simp
  next
    case False
    with Cons.prems have in_rest: "(k, v) \<in> set entries"
      by simp
    then have "k \<in> fst ` set entries"
      by (rule rev_image_eqI) simp
    with Cons.prems(1) have "fst p \<noteq> k"
      by auto
    moreover from Cons.prems(1) in_rest have "filter (\<lambda>p. fst p = k) entries = [(k, v)]"
      by (simp add: Cons.IH)
    ultimately show ?thesis by simp
  qed
qed

lemma occurrences_appended:
  assumes "distinct (map fst entries)" and "(k, v) \<in> set entries"
  shows "occurrences k (appended P entries) = (if present v then 1 else 0)"
proof -
  have "occurrences k (appended P entries) =
      length (filter (\<lambda>p. present (snd p)) (filter (\<lambda>p. fst p = k) entries))"
    by (simp add: occurrences_def appended_def filter_map o_def conj_commute)
  also have "\<dots> = (if present v then 1 else 0)"
    by (simp add: filter_key [OF assms])
  finally show ?thesis .
qed

lemma sent_queries_fetchWithAuth:
  assumes "construct_url P c (endpoint opts) = Inr u"
    and "build_request P c verb opts u = Inr req"
  shows "sent_queries (fetchWithAuth P c verb opts) =
           [searchParams u @ (case params opts of None \<Rightarrow> [] | Some entries \<Rightarrow> appended P entries)]"
  using sent_fetchWithAuth [OF assms] build_request_Inr(1) [OF assms(2)]
  by (simp add: sent_queries_def query_params_def searchParams_append_params
      split: option.splits)

text \<open>
  C2, as the code has it. For a parameter record that is given, a call that gets as far
  as its request (the URL is resolved and no header is refused) appends to the query of
  the URL resolved from the endpoint, in the order of the record's entries,
  the pair \<^verbatim>\<open>key=String(value)\<close> for every entry whose value is neither undefined nor
  null, and nothing for the other entries: among the appended pairs a key with a value
  occurs exactly once and a key without one does not occur. When the endpoint has no
  query of its own these pairs are the whole query of the request.
\<close>

theorem query_composition:
  assumes "construct_url P c (endpoint opts) = Inr u"
    and "build_request P c verb opts u = Inr req"
    and "params opts = Some entries"
    and "distinct (map fst entries)"
  shows "sent_queries (fetchWithAuth P c verb opts) = [searchParams u @ appended P entries] \<and>
         appended P entries = map (\<lambda>p. (fst p, String_of P (snd p))) (filter (\<lambda>p. present (snd p)) entries) \<and>
         (\<forall>(k, v) \<in> set entries.
            if present v
            then occurrences k (appended P entries) = 1 \<and>
                 (k, String_of P v) \<in> set (appended P entries)
            else occurrences k (appended P entries) = 0) \<and>
         (searchParams u = [] \<longrightarrow>
            sent_queries (fetchWithAuth P c verb opts) = [appended P entries])"
proof -
  have q: "sent_queries (fetchWithAuth P c verb opts) = [searchParams u @ appended P entries]"
    using sent_queries_fetchWithAuth [OF assms(1,2)] assms(3) by simp
  have each: "if present v
      then occurrences k (appended P entries) = 1 \<and> (k, String_of P v) \<in> set (appended P entries)
      else occurrences k (appended P entries) = 0" if "(k, v) \<in> set entries" for k v
    using occurrences_appended [OF assms(4) that, of P] that
    by (auto simp: set_appended intro!: image_eqI [where x = "(k, v)"])
  have order: "appended P entries =
      map (\<lambda>p. (fst p, String_of P (snd p))) (filter (\<lambda>p. present (snd p)) entries)"
    by (simp add: appended_def)
  from q have own: "searchParams u = [] \<longrightarrow>
      sent_queries (fetchWithAuth P c verb opts) = [appended P entries]"
    by simp
  from each have "\<forall>(k, v) \<in> set entries.
      if present v
      then occurrences k (appended P entries) = 1 \<and> (k, String_of P v) \<in> set (appended P entries)
      else occurrences k (appended P entries) = 0"
    by blast
  with q order own show ?thesis
    by blast
qed

theorem query_composition_witness:
  "sent_queries (get (sample_platform no_rows [(body no_rows, JArray [])]) (sample_client None)
     ((sample_options ''/users'')\<lparr>params :=
        Some [(''select'', PString ''*''), (''id'', PUndefined), (''active'', PBoolean True),
              (''offset'', PNull), (''age'', PNumber 30)]\<rparr>)) =
   [[(''select'', ''*''), (''active'', ''true''), (''age'', ''30'')]]"
proof -
  let ?P = "sample_platform no_rows [(body no_rows, JArray [])]"
  let ?entries = "[(''select'', PString ''*''), (''id'', PUndefined), (''active'', PBoolean True),
              (''offset'', PNull), (''age'', PNumber 30)] :: (string \<times> int ParamValue) list"
  let ?o = "(sample_options ''/users'')\<lparr>params := Some ?entries\<rparr>"
  let ?u = "\<lparr>location = ''https://api.example.com/users'', searchParams = []\<rparr>"
  have url: "construct_url ?P (sample_client None) (endpoint ?o) = Inr ?u"
    by (simp add: sample_construct_url sample_options_def)
  obtain req where req: "build_request ?P (sample_client None) ''GET'' ?o ?u = Inr req"
    using sample_builds [of ?o ?P "''GET''" ?u] by (auto simp: sample_options_def)
  have given: "params ?o = Some ?entries"
    by simp
  have keys: "distinct (map fst ?entries)"
    by simp
  have "Number_toString ?P 30 = decimal 30"
    by (simp add: sample_platform_def)
  also have "decimal 30 = ''30''"
    by (simp add: decimal.simps)
  finally have thirty: "Number_toString ?P 30 = ''30''" .
  have pairs: "appended ?P ?entries = [(''select'', ''*''), (''active'', ''true''), (''age'', ''30'')]"
    unfolding appended_def by (simp add: thirty)
  from query_composition [OF url req given keys]
  have "sent_queries (fetchWithAuth ?P (sample_client None) ''GET'' ?o) =
      [searchParams ?u @ appended ?P ?entries]"
    by (rule conjunct1)
  then show ?thesis
    unfolding get_def pairs by simp
qed

text \<open>
  The endpoint may carry a query of its own, which \<^verbatim>\<open>searchParams.append\<close> keeps: with
  the endpoint \<^verbatim>\<open>/users?select=id\<close> the parameter \<^verbatim>\<open>select: "*"\<close> makes the key
  occur twice in the query of the request, and \<^verbatim>\<open>select: undefined\<close> leaves it there
  once.
\<close>

lemma sample_construct_url_query:
  "construct_url (sample_platform res bodies) (sample_client t) ''/users?select=id'' =
     Inr \<lparr>location = ''https://api.example.com/users'', searchParams = [(''select'', ''id'')]\<rparr>"
  by (simp add: construct_url_def sample_platform_def sample_client_def PostgrestClient_def
      sample_URL_new_def before_def after_def parse_query_def)

theorem query_composition_counterexample:
  "map (occurrences ''select'')
     (sent_queries (get (sample_platform no_rows [(body no_rows, JArray [])]) (sample_client None)
        ((sample_options ''/users?select=id'')\<lparr>params := Some [(''select'', PString ''*'')]\<rparr>)))
     = [2] \<and>
   map (occurrences ''select'')
     (sent_queries (get (sample_platform no_rows [(body no_rows, JArray [])]) (sample_client None)
        ((sample_options ''/users?select=id'')\<lparr>params := Some [(''select'', PUndefined)]\<rparr>)))
     = [1]"
proof -
  let ?P = "sample_platform no_rows [(body no_rows, JArray [])]"
  let ?u = "\<lparr>location = ''https://api.example.com/users'', searchParams = [(''select'', ''id'')]\<rparr>"
  have "sent_queries (fetchWithAuth ?P (sample_client None) ''GET''
          ((sample_options ''/users?select=id'')\<lparr>params := p\<rparr>)) =
        [[(''select'', ''id'')] @ (case p of None \<Rightarrow> [] | Some entries \<Rightarrow> appended ?P entries)]"
    for p
  proof -
    let ?o = "(sample_options ''/users?select=id'')\<lparr>params := p\<rparr>"
    have url: "construct_url ?P (sample_client None) (endpoint ?o) = Inr ?u"
      by (simp add: sample_construct_url_query sample_options_def)
    obtain req where req: "build_request ?P (sample_client None) ''GET'' ?o ?u = Inr req"
      using sample_builds [of ?o ?P "''GET''" ?u] by (auto simp: sample_options_def)
    from sent_queries_fetchWithAuth [OF url req] show ?thesis by simp
  qed
  then show ?thesis
    by (simp add: get_def occurrences_def appended_def)
qed

section \<open>The Authorization header\<close>










section \<open>setToken\<close>










section \<open>Responses without content\<close>

lemma classify_no_content:
  "status res = 204 \<or> status res = 202 \<Longrightarrow> classify_response P s res = (Inr JNull, [])"
  by (auto simp: classify_response_def ok_def)

text \<open>
  C7. When the response to the request of a call has status 204 or 202, the pipeline (and so
  \<open>get\<close>, \<open>post\<close>, \<open>patch\<close> and \<open>delete'\<close>, which are the pipeline at a fixed verb)
  resolves to \<^verbatim>\<open>null\<close>, whatever the body, the parser and the schema of the options
  are: the only effect of the call is the request itself, so the body is never parsed and
  no schema is run.
\<close>

theorem no_content_resolves_to_null_unparsed:
  assumes "construct_url P c (endpoint opts) = Inr u"
    and "build_request P c verb opts u = Inr req"
    and "fetch P req = Inr res"
    and "status res = 204 \<or> status res = 202"
  shows "fetchWithAuth P c verb opts = (Inr JNull, [Fetch req]) \<and>
         ResponseJson \<notin> set (snd (fetchWithAuth P c verb opts)) \<and>
         SchemaValidate \<notin> set (snd (fetchWithAuth P c verb opts))"
  using assms by (simp add: fetchWithAuth_answered classify_no_content)

theorem no_content_resolves_to_null_unparsed_witness:
  "fetchWithAuth (sample_platform no_content []) (sample_client None) ''DELETE''
     ((sample_options ''/users'')\<lparr>schema := Some NotStandard\<rparr>) =
   (Inr JNull, [Fetch (sample_request ''DELETE'')])"
proof -
  let ?P = "sample_platform no_content []"
  let ?o = "(sample_options ''/users'')\<lparr>schema := Some NotStandard\<rparr>"
  let ?u = "\<lparr>location = ''https://api.example.com/users'', searchParams = []\<rparr>"
  have url: "construct_url ?P (sample_client None) (endpoint ?o) = Inr ?u"
    using sample_construct_url [of no_content "[]" None] by (simp add: sample_options_def)
  have st: "status no_content = 204 \<or> status no_content = 202"
    by (simp add: no_content_def)
  from no_content_resolves_to_null_unparsed [OF url sample_build_request sample_fetch st]
  show ?thesis by blast
qed

section \<open>Error responses\<close>

text \<open>
  C8. A response outside 200 to 299 whose body is not JSON makes the call fail with an
  \<^verbatim>\<open>Error\<close> whose message names the status and the failed parse. When the body is
  JSON but not an error envelope, the call logs the mismatch and fails with an
  \<^verbatim>\<open>Error\<close> that names the status and is not a \<^verbatim>\<open>PostgrestClientError\<close>.
\<close>

theorem malformed_error_responses:
  assumes "construct_url P c (endpoint opts) = Inr u"
    and "build_request P c verb opts u = Inr req"
    and "fetch P req = Inr res"
    and "\<not> ok res"
  shows "(\<forall>msg. Response_json P (body res) = Inl msg \<longrightarrow>
            fetchWithAuth P c verb opts =
              (Inl (Error (''HTTP Error '' @ decimal (status res) @
                 '': Failed to parse JSON error response'')),
               [Fetch req, ResponseJson])) \<and>
         (\<forall>errorData. Response_json P (body res) = Inr errorData \<longrightarrow>
            postgrestErrorSchema errorData = None \<longrightarrow>
            fetchWithAuth P c verb opts =
              (Inl (Error (''Internal Client Error: Invalid error format from server ('' @
                 decimal (status res) @ '')'')),
               [Fetch req, ResponseJson, ConsoleError]) \<and>
            (\<forall>e. fst (fetchWithAuth P c verb opts) \<noteq> Inl (Thrown e)))"
  using assms by (simp add: fetchWithAuth_answered classify_response_def)

theorem malformed_error_responses_witness:
  "fetchWithAuth (sample_platform bad_gateway []) (sample_client None) ''GET''
     (sample_options ''/users'') =
     (Inl (Error ''HTTP Error 502: Failed to parse JSON error response''),
      [Fetch (sample_request ''GET''), ResponseJson]) \<and>
   fetchWithAuth (sample_platform foreign_error [(body foreign_error, foreign_error_json)])
     (sample_client None) ''GET'' (sample_options ''/users'') =
     (Inl (Error ''Internal Client Error: Invalid error format from server (500)''),
      [Fetch (sample_request ''GET''), ResponseJson, ConsoleError])"
proof -
  let ?u = "\<lparr>location = ''https://api.example.com/users'', searchParams = []\<rparr>"
  let ?o = "sample_options ''/users''"
  let ?P = "sample_platform bad_gateway []"
  let ?Q = "sample_platform foreign_error [(body foreign_error, foreign_error_json)]"
  have urlP: "construct_url ?P (sample_client None) (endpoint ?o) = Inr ?u"
    and urlQ: "construct_url ?Q (sample_client None) (endpoint ?o) = Inr ?u"
    by (simp_all add: sample_construct_url sample_options_def)
  have reqP: "build_request ?P (sample_client None) ''GET'' ?o ?u = Inr (sample_request ''GET'')"
    and reqQ: "build_request ?Q (sample_client None) ''GET'' ?o ?u = Inr (sample_request ''GET'')"
    using sample_build_request [of _ _ "''GET''" None] by (simp_all add: sample_options_def)
  have nokP: "\<not> ok bad_gateway" and nokQ: "\<not> ok foreign_error"
    by (simp_all add: ok_def bad_gateway_def foreign_error_def)
  have unparsed: "Response_json ?P (body bad_gateway) = Inl ''Unexpected token''"
    by (simp add: sample_Response_json)
  have parsed: "Response_json ?Q (body foreign_error) = Inr foreign_error_json"
    by (simp add: sample_Response_json)
  have shape: "postgrestErrorSchema foreign_error_json = None"
    by (simp add: postgrestErrorSchema_def foreign_error_json_def)
  have d502: "decimal (status bad_gateway) = ''502''"
    by (simp add: bad_gateway_def decimal.simps)
  have d500: "decimal (status foreign_error) = ''500''"
    by (simp add: foreign_error_def decimal.simps)
  from malformed_error_responses [OF urlP reqP sample_fetch nokP] unparsed d502
  have one: "fetchWithAuth ?P (sample_client None) ''GET'' ?o =
     (Inl (Error ''HTTP Error 502: Failed to parse JSON error response''),
      [Fetch (sample_request ''GET''), ResponseJson])"
    by simp
  from malformed_error_responses [OF urlQ reqQ sample_fetch nokQ] parsed shape d500
  have two: "fetchWithAuth ?Q (sample_client None) ''GET'' ?o =
     (Inl (Error ''Internal Client Error: Invalid error format from server (500)''),
      [Fetch (sample_request ''GET''), ResponseJson, ConsoleError])"
    by simp
  from one two show ?thesis by blast
qed

text \<open>The bodies that match the envelope, spelled out.\<close>

lemma v_string_Some: "v_string x = Some s \<longleftrightarrow> x = Some (JString s)"
  by (cases "(x)" rule: v_string.cases) auto

lemma v_nullable_string_Some: "v_nullable_string x = Some s \<longleftrightarrow> x = Some (nullable s)"
  by (cases "(x)" rule: v_nullable_string.cases) (auto simp: nullable_def split: option.splits)

lemma envelope_shape:
  "postgrestErrorSchema errorData = Some E \<longleftrightarrow>
     (\<exists>entries. errorData = JObject entries \<and>
        map_of entries ''message'' = Some (JString (message E)) \<and>
        map_of entries ''details'' = Some (nullable (details E)) \<and>
        map_of entries ''hint'' = Some (nullable (hint E)) \<and>
        map_of entries ''code'' = Some (JString (code E)))"
proof
  assume "postgrestErrorSchema errorData = Some E"
  then show "\<exists>entries. errorData = JObject entries \<and>
        map_of entries ''message'' = Some (JString (message E)) \<and>
        map_of entries ''details'' = Some (nullable (details E)) \<and>
        map_of entries ''hint'' = Some (nullable (hint E)) \<and>
        map_of entries ''code'' = Some (JString (code E))"
    by (auto simp: postgrestErrorSchema_def v_string_Some v_nullable_string_Some
        split: json.splits option.splits)
next
  assume "\<exists>entries. errorData = JObject entries \<and>
        map_of entries ''message'' = Some (JString (message E)) \<and>
        map_of entries ''details'' = Some (nullable (details E)) \<and>
        map_of entries ''hint'' = Some (nullable (hint E)) \<and>
        map_of entries ''code'' = Some (JString (code E))"
  then show "postgrestErrorSchema errorData = Some E"
    by (auto simp: envelope_matches)
qed

text \<open>
  C4. A response outside 200 to 299 whose body is a JSON object with a string under
  \<^verbatim>\<open>message\<close> and \<^verbatim>\<open>code\<close> and a string or null under \<^verbatim>\<open>details\<close> and
  \<^verbatim>\<open>hint\<close> makes the call fail with a \<^verbatim>\<open>PostgrestClientError\<close> carrying exactly these
  four values and the status of the response. A client error built from any status and
  envelope gives both back field by field.
\<close>

theorem client_error_mirrors_envelope:
  assumes "construct_url P c (endpoint opts) = Inr u"
    and "build_request P c verb opts u = Inr req"
    and "fetch P req = Inr res"
    and "\<not> ok res"
    and "Response_json P (body res) = Inr (JObject entries)"
    and "map_of entries ''message'' = Some (JString m)"
    and "map_of entries ''details'' = Some (nullable d)"
    and "map_of entries ''hint'' = Some (nullable h)"
    and "map_of entries ''code'' = Some (JString cd)"
  shows "fst (fetchWithAuth P c verb opts) =
           Inl (Thrown \<lparr>error_message = m, error_name = ''PostgrestClientError'',
                  error_type = POSTGREST_ERROR_TYPE, error_status = status res,
                  error_details = d, error_hint = h, error_code = cd\<rparr>) \<and>
         error_message (PostgrestClientError_constructor S E) = message E \<and>
         error_details (PostgrestClientError_constructor S E) = details E \<and>
         error_hint (PostgrestClientError_constructor S E) = hint E \<and>
         error_code (PostgrestClientError_constructor S E) = code E \<and>
         error_status (PostgrestClientError_constructor S E) = S"
proof -
  from assms(6-9) have "postgrestErrorSchema (JObject entries) =
      Some \<lparr>message = m, details = d, hint = h, code = cd\<rparr>"
    by (rule envelope_matches)
  with assms(1-5) show ?thesis
    by (simp add: fetchWithAuth_answered classify_response_def
        PostgrestClientError_constructor_def)
qed

theorem client_error_mirrors_envelope_witness:
  "fst (fetchWithAuth (sample_platform missing_table [(body missing_table, missing_table_json)])
     (sample_client None) ''GET'' (sample_options ''/users'')) =
   Inl (Thrown \<lparr>error_message = ''relation does not exist'',
          error_name = ''PostgrestClientError'', error_type = ''POSTGREST_ERROR'',
          error_status = 404, error_details = None, error_hint = None,
          error_code = ''42P01''\<rparr>)"
proof -
  let ?u = "\<lparr>location = ''https://api.example.com/users'', searchParams = []\<rparr>"
  let ?o = "sample_options ''/users''"
  let ?P = "sample_platform missing_table [(body missing_table, missing_table_json)]"
  let ?entries = "[(''code'', JString ''42P01''), (''details'', JNull), (''hint'', JNull),
              (''message'', JString ''relation does not exist'')] :: (string \<times> int json) list"
  have url: "construct_url ?P (sample_client None) (endpoint ?o) = Inr ?u"
    by (simp add: sample_construct_url sample_options_def)
  have req: "build_request ?P (sample_client None) ''GET'' ?o ?u = Inr (sample_request ''GET'')"
    using sample_build_request [of _ _ "''GET''" None] by (simp add: sample_options_def)
  have nok: "\<not> ok missing_table"
    by (simp add: ok_def missing_table_def)
  have parsed: "Response_json ?P (body missing_table) = Inr (JObject ?entries)"
    by (simp add: sample_Response_json missing_table_json_def)
  have m: "map_of ?entries ''message'' = Some (JString ''relation does not exist'')"
    and d: "map_of ?entries ''details'' = Some (nullable None)"
    and h: "map_of ?entries ''hint'' = Some (nullable None)"
    and c: "map_of ?entries ''code'' = Some (JString ''42P01'')"
    by (simp_all add: nullable_def)
  from client_error_mirrors_envelope [OF url req sample_fetch nok parsed m d h c]
  show ?thesis
    by (simp add: POSTGREST_ERROR_TYPE_def missing_table_def)
qed

section \<open>getFirst\<close>

lemma requests_of_append: "requests_of (es @ fs) = requests_of es @ requests_of fs"
  by (induction es rule: requests_of.induct) simp_all

lemma requests_of_validateData: "validateData P s x = (r, es) \<Longrightarrow> requests_of es = []"
  by (auto simp: validateData_def split: schema.splits StandardResult.splits)

lemma sent_getFirst:
  "sent (getFirst P c opts) =
   sent (fetchWithAuth P c ''GET'' (opts\<lparr>params := Some (allParams opts), schema := None\<rparr>))"
  by (auto simp: getFirst_def sent_def requests_of_append
      dest: requests_of_validateData
      split: prod.splits sum.splits json.splits list.splits option.splits)

lemma set_spread_with:
  "distinct (map fst entries) \<Longrightarrow>
   set (spread_with entries key val) = insert (key, val) {p \<in> set entries. fst p \<noteq> key}"
  by (induction entries key val rule: spread_with.induct) (auto simp: rev_image_eqI)

lemma occurrences_appended_spread:
  "distinct (map fst entries) \<Longrightarrow> present val \<Longrightarrow>
   occurrences key (appended P (spread_with entries key val)) = 1"
  by (induction entries key val rule: spread_with.induct)
     (auto simp: occurrences_def appended_def filter_empty_conv rev_image_eqI)

text \<open>
  C5. \<open>getFirst\<close> hands the pipeline the caller's parameters with \<^verbatim>\<open>limit: "1"\<close>
  written over them: the query of the request it sends is the query of the resolved
  endpoint followed by the pairs of the merged record, among them \<^verbatim>\<open>limit=1\<close> exactly
  once (a \<^verbatim>\<open>limit\<close> of the caller is overwritten) and every other parameter of the
  caller that has a value. The caller's record has pairwise different keys, as every
  object has.
\<close>

theorem getFirst_merges_limit:
  assumes "construct_url P c (endpoint opts) = Inr u"
    and "build_request P c ''GET''
           (opts\<lparr>params := Some (allParams opts), schema := None\<rparr>) u = Inr req"
    and "params opts = None \<and> entries = [] \<or> params opts = Some entries"
    and "distinct (map fst entries)"
  shows "sent_queries (getFirst P c opts) = [searchParams u @ appended P (allParams opts)] \<and>
         (''limit'', ''1'') \<in> set (appended P (allParams opts)) \<and>
         occurrences ''limit'' (appended P (allParams opts)) = 1 \<and>
         (\<forall>(k, v) \<in> set entries. k \<noteq> ''limit'' \<longrightarrow> present v \<longrightarrow>
            (k, String_of P v) \<in> set (appended P (allParams opts)))"
proof -
  let ?o = "opts\<lparr>params := Some (allParams opts), schema := None\<rparr>"
  from assms(3) have all: "allParams opts = spread_with entries ''limit'' (PString ''1'')"
    by (auto simp: allParams_def)
  from assms(1) have "construct_url P c (endpoint ?o) = Inr u" by simp
  then have "sent (fetchWithAuth P c ''GET'' ?o) = [req]"
    using assms(2) by (rule sent_fetchWithAuth)
  with build_request_Inr(1) [OF assms(2)]
  have q: "sent_queries (getFirst P c opts) = [searchParams u @ appended P (allParams opts)]"
    by (simp add: sent_queries_def sent_getFirst query_params_def searchParams_append_params)
  have limit: "(''limit'', ''1'') \<in> set (appended P (allParams opts))"
    using assms(4) unfolding all set_appended set_spread_with [OF assms(4)]
    by (rule_tac x = "(''limit'', PString ''1'')" in image_eqI) simp_all
  have once: "occurrences ''limit'' (appended P (allParams opts)) = 1"
    unfolding all using assms(4) by (simp add: occurrences_appended_spread)
  have others: "(k, String_of P v) \<in> set (appended P (allParams opts))"
    if "(k, v) \<in> set entries" "k \<noteq> ''limit''" "present v" for k v
    unfolding all set_appended set_spread_with [OF assms(4)]
    using that by (rule_tac x = "(k, v)" in image_eqI) simp_all
  from q limit once others show ?thesis by blast
qed

theorem getFirst_merges_limit_witness:
  "sent_queries (getFirst (sample_platform no_rows [(body no_rows, JArray [])]) (sample_client None)
     ((sample_options ''/users'')\<lparr>params := Some [(''select'', PString ''*'')]\<rparr>)) =
   [[(''select'', ''*''), (''limit'', ''1'')]]"
proof -
  let ?P = "sample_platform no_rows [(body no_rows, JArray [])]"
  let ?o = "(sample_options ''/users'')\<lparr>params := Some [(''select'', PString ''*'')]\<rparr>"
  let ?u = "\<lparr>location = ''https://api.example.com/users'', searchParams = []\<rparr>"
  let ?entries = "[(''select'', PString ''*'')] :: (string \<times> int ParamValue) list"
  have url: "construct_url ?P (sample_client None) (endpoint ?o) = Inr ?u"
    by (simp add: sample_construct_url sample_options_def)
  obtain req where req: "build_request ?P (sample_client None) ''GET''
      (?o\<lparr>params := Some (allParams ?o), schema := None\<rparr>) ?u = Inr req"
    using sample_builds [of "?o\<lparr>params := Some (allParams ?o), schema := None\<rparr>" ?P "''GET''" ?u]
    by (auto simp: sample_options_def)
  have given: "params ?o = None \<and> ?entries = [] \<or> params ?o = Some ?entries"
    by simp
  have keys: "distinct (map fst ?entries)"
    by simp
  have pairs: "appended ?P (allParams ?o) = [(''select'', ''*''), (''limit'', ''1'')]"
    by (simp add: appended_def allParams_def)
  from getFirst_merges_limit [OF url req given keys]
  have "sent_queries (getFirst ?P (sample_client None) ?o) =
      [searchParams ?u @ appended ?P (allParams ?o)]"
    by (rule conjunct1)
  then show ?thesis
    unfolding pairs by simp
qed

text \<open>
  C6. When the pipeline resolves to a non-empty array, \<open>getFirst\<close> takes its first
  element. Without a schema in the caller's options it resolves to that element. With a
  schema it runs the schema on that element alone, as \<open>validateData\<close> does: it resolves
  to the value the schema answers with, fails with the \<^verbatim>\<open>Error\<close>
  \<^verbatim>\<open>Schema Validation Error\<close> that carries the printed issues when the schema answers
  with issues, and fails with \<^verbatim>\<open>Provided schema is not a valid Standard Schema\<close> when
  the schema lacks the interface. When the pipeline resolves to an empty array or to a
  value that is not an array, \<open>getFirst\<close> fails with the \<^verbatim>\<open>Error\<close>
  \<^verbatim>\<open>No data found\<close>.
\<close>

theorem getFirst_unwraps_or_not_found:
  "(\<forall>x xs. fst (fetchWithAuth P c ''GET''
               (opts\<lparr>params := Some (allParams opts), schema := None\<rparr>)) = Inr (JArray (x # xs)) \<longrightarrow>
      (schema opts = None \<longrightarrow> fst (getFirst P c opts) = Inr x) \<and>
      (\<forall>validate v. schema opts = Some (StandardSchema validate) \<longrightarrow>
         validate x = SuccessResult v \<longrightarrow> fst (getFirst P c opts) = Inr v) \<and>
      (\<forall>validate issues. schema opts = Some (StandardSchema validate) \<longrightarrow>
         validate x = FailureResult issues \<longrightarrow>
         fst (getFirst P c opts) =
           Inl (Error (''Schema Validation Error: '' @ JSON_stringify_indent P (JArray issues)))) \<and>
      (schema opts = Some NotStandard \<longrightarrow>
         fst (getFirst P c opts) =
           Inl (Error ''Provided schema is not a valid Standard Schema'')) \<and>
      fst (getFirst P c opts) =
        (case schema opts of None \<Rightarrow> Inr x | Some s \<Rightarrow> fst (validateData P s x))) \<and>
   (\<forall>d. fst (fetchWithAuth P c ''GET''
            (opts\<lparr>params := Some (allParams opts), schema := None\<rparr>)) = Inr d \<longrightarrow>
      (d = JArray [] \<or> (\<forall>xs. d \<noteq> JArray xs)) \<longrightarrow>
      fst (getFirst P c opts) = Inl (Error ''No data found''))"
proof -
  let ?run = "fetchWithAuth P c ''GET'' (opts\<lparr>params := Some (allParams opts), schema := None\<rparr>)"
  have first: "fst (getFirst P c opts) =
      (case schema opts of None \<Rightarrow> Inr x | Some s \<Rightarrow> fst (validateData P s x))"
    if "fst ?run = Inr (JArray (x # xs))" for x xs
    using that by (auto simp: getFirst_def split: prod.splits option.splits)
  have raw: "fst (getFirst P c opts) = Inr x"
    if "fst ?run = Inr (JArray (x # xs))" "schema opts = None" for x xs
    using first [OF that(1)] that(2) by simp
  have valid: "fst (getFirst P c opts) = Inr v"
    if "fst ?run = Inr (JArray (x # xs))" "schema opts = Some (StandardSchema validate)"
      "validate x = SuccessResult v" for x xs validate v
    using first [OF that(1)] that(2,3) by (simp add: validateData_def)
  have invalid: "fst (getFirst P c opts) =
      Inl (Error (''Schema Validation Error: '' @ JSON_stringify_indent P (JArray issues)))"
    if "fst ?run = Inr (JArray (x # xs))" "schema opts = Some (StandardSchema validate)"
      "validate x = FailureResult issues" for x xs validate issues
    using first [OF that(1)] that(2,3) by (simp add: validateData_def)
  have unfit: "fst (getFirst P c opts) =
      Inl (Error ''Provided schema is not a valid Standard Schema'')"
    if "fst ?run = Inr (JArray (x # xs))" "schema opts = Some NotStandard" for x xs
    using first [OF that(1)] that(2) by (simp add: validateData_def)
  have none: "fst (getFirst P c opts) = Inl (Error ''No data found'')"
    if "fst ?run = Inr d" "d = JArray [] \<or> (\<forall>xs. d \<noteq> JArray xs)" for d
    using that by (auto simp: getFirst_def split: prod.splits json.splits list.splits)
  from first raw valid invalid unfit none show ?thesis
    by blast
qed

theorem getFirst_unwraps_or_not_found_witness:
  "fst (getFirst (sample_platform one_row [(body one_row, one_row_json)]) (sample_client None)
     (sample_options ''/users'')) = Inr (JObject [(''id'', JNumber 1)]) \<and>
   fst (getFirst (sample_platform one_row [(body one_row, one_row_json)]) (sample_client None)
     ((sample_options ''/users'')\<lparr>schema := Some object_schema\<rparr>)) =
     Inr (JObject [(''id'', JNumber 1)]) \<and>
   fst (getFirst (sample_platform number_row [(body number_row, number_row_json)])
     (sample_client None) ((sample_options ''/users'')\<lparr>schema := Some object_schema\<rparr>)) =
     Inl (Error (''Schema Validation Error: ['' @ [CHR 0x0A] @ ''  '' @
            quoted ''Invalid type: Expected Object'' @ [CHR 0x0A] @ '']'')) \<and>
   fst (getFirst (sample_platform one_row [(body one_row, one_row_json)]) (sample_client None)
     ((sample_options ''/users'')\<lparr>schema := Some NotStandard\<rparr>)) =
     Inl (Error ''Provided schema is not a valid Standard Schema'') \<and>
   fst (getFirst (sample_platform no_rows [(body no_rows, JArray [])]) (sample_client None)
     (sample_options ''/users'')) = Inl (Error ''No data found'')"
proof -
  let ?P = "sample_platform one_row [(body one_row, one_row_json)]"
  let ?N = "sample_platform number_row [(body number_row, number_row_json)]"
  let ?Q = "sample_platform no_rows [(body no_rows, JArray [])]"
  let ?o = "sample_options ''/users''"
  let ?s = "(sample_options ''/users'')\<lparr>schema := Some object_schema\<rparr>"
  let ?n = "(sample_options ''/users'')\<lparr>schema := Some NotStandard\<rparr>"
  let ?accept = "\<lambda>j :: int json. case j of JObject entries \<Rightarrow> SuccessResult (JObject entries)
      | _ \<Rightarrow> FailureResult [JString ''Invalid type: Expected Object'']"
  have same: "w\<lparr>params := Some p, schema := None\<rparr> = ?o\<lparr>params := Some p, schema := None\<rparr>"
    if "w = ?o\<lparr>schema := s\<rparr>" for w p s
    using that by (simp add: sample_options_def)
  have rows: "fst (fetchWithAuth ?P (sample_client None) ''GET''
      (w\<lparr>params := Some (allParams w), schema := None\<rparr>)) =
      Inr (JArray [JObject [(''id'', JNumber 1)]])" if "w = ?o\<lparr>schema := s\<rparr>" for w s
    unfolding same [OF that]
    by (simp add: sample_resolves one_row_def one_row_json_def)
  have numbers: "fst (fetchWithAuth ?N (sample_client None) ''GET''
      (?s\<lparr>params := Some (allParams ?s), schema := None\<rparr>)) = Inr (JArray [JNumber 7])"
    unfolding same [of ?s "Some object_schema", OF refl]
    by (simp add: sample_resolves number_row_def number_row_json_def)
  have none: "fst (fetchWithAuth ?Q (sample_client None) ''GET''
      (?o\<lparr>params := Some (allParams ?o), schema := None\<rparr>)) = Inr (JArray [])"
    by (simp add: sample_resolves no_rows_def)
  have plain: "schema ?o = None"
    and given: "schema ?s = Some (StandardSchema ?accept)"
    and unfit: "schema ?n = Some NotStandard"
    by (simp_all add: sample_options_def object_schema_def)
  have accepted: "?accept (JObject [(''id'', JNumber 1)]) = SuccessResult (JObject [(''id'', JNumber 1)])"
    and refused: "?accept (JNumber 7) = FailureResult [JString ''Invalid type: Expected Object'']"
    by simp_all
  have printed: "JSON_stringify_indent ?N (JArray [JString ''Invalid type: Expected Object'']) =
      ''['' @ [CHR 0x0A] @ ''  '' @ quoted ''Invalid type: Expected Object'' @ [CHR 0x0A] @ '']''"
    by (simp add: sample_platform_def)
  from getFirst_unwraps_or_not_found [of ?P "sample_client None" ?o]
    rows [of ?o None] plain
  have one: "fst (getFirst ?P (sample_client None) ?o) = Inr (JObject [(''id'', JNumber 1)])"
    by (simp add: sample_options_def)
  from getFirst_unwraps_or_not_found [of ?P "sample_client None" ?s]
    rows [of ?s "Some object_schema", OF refl] given accepted
  have two: "fst (getFirst ?P (sample_client None) ?s) = Inr (JObject [(''id'', JNumber 1)])"
    by blast
  from getFirst_unwraps_or_not_found [of ?N "sample_client None" ?s] numbers given refused
  have "fst (getFirst ?N (sample_client None) ?s) =
      Inl (Error (''Schema Validation Error: '' @
        JSON_stringify_indent ?N (JArray [JString ''Invalid type: Expected Object''])))"
    by blast
  then have three: "fst (getFirst ?N (sample_client None) ?s) =
      Inl (Error (''Schema Validation Error: ['' @ [CHR 0x0A] @ ''  '' @
            quoted ''Invalid type: Expected Object'' @ [CHR 0x0A] @ '']''))"
    unfolding printed by simp
  from getFirst_unwraps_or_not_found [of ?P "sample_client None" ?n]
    rows [of ?n "Some NotStandard", OF refl] unfit
  have four: "fst (getFirst ?P (sample_client None) ?n) =
      Inl (Error ''Provided schema is not a valid Standard Schema'')"
    by blast
  from getFirst_unwraps_or_not_found [of ?Q "sample_client None" ?o] none
  have five: "fst (getFirst ?Q (sample_client None) ?o) = Inl (Error ''No data found'')"
    by simp
  from one two three four five show ?thesis by blast
qed

text \<open>
  C10. When the request of \<open>getFirst\<close> is answered with status 204 or 202, the
  pipeline resolves to \<^verbatim>\<open>null\<close>, which is not an array, and \<open>getFirst\<close> fails with
  \<^verbatim>\<open>No data found\<close>.
\<close>

theorem getFirst_no_content_not_found:
  assumes "construct_url P c (endpoint opts) = Inr u"
    and "build_request P c ''GET''
           (opts\<lparr>params := Some (allParams opts), schema := None\<rparr>) u = Inr req"
    and "fetch P req = Inr res"
    and "status res = 204 \<or> status res = 202"
  shows "fst (getFirst P c opts) = Inl (Error ''No data found'')"
proof -
  let ?o = "opts\<lparr>params := Some (allParams opts), schema := None\<rparr>"
  from assms(1) have "construct_url P c (endpoint ?o) = Inr u" by simp
  from fetchWithAuth_answered [OF this assms(2,3)] assms(4)
  have "fetchWithAuth P c ''GET'' ?o = (Inr JNull, [Fetch req])"
    by (simp add: classify_no_content)
  then show ?thesis
    by (simp add: getFirst_def)
qed

theorem getFirst_no_content_not_found_witness:
  "fst (getFirst (sample_platform no_content []) (sample_client None) (sample_options ''/users''))
     = Inl (Error ''No data found'')"
proof -
  let ?P = "sample_platform no_content []"
  let ?o = "sample_options ''/users''"
  let ?u = "\<lparr>location = ''https://api.example.com/users'', searchParams = []\<rparr>"
  have url: "construct_url ?P (sample_client None) (endpoint ?o) = Inr ?u"
    by (simp add: sample_construct_url sample_options_def)
  obtain req where req: "build_request ?P (sample_client None) ''GET''
      (?o\<lparr>params := Some (allParams ?o), schema := None\<rparr>) ?u = Inr req"
    using sample_builds [of "?o\<lparr>params := Some (allParams ?o), schema := None\<rparr>" ?P "''GET''" ?u]
    by (auto simp: sample_options_def)
  have st: "status no_content = 204 \<or> status no_content = 202"
    by (simp add: no_content_def)
  from getFirst_no_content_not_found [OF url req sample_fetch st] show ?thesis .
qed

end
